theory Spec2Isabelle
  imports Complex_Main "HOL-Library.Char_ord" "HOL-Library.List_Lexorder"
begin

section \<open>Python values, exceptions and messages\<close>

text \<open>
  The validators of \<^verbatim>\<open>colosseum/validators.py\<close> are dynamically typed: each receives an
  arbitrary Python object. The objects they can tell apart are modelled by \<open>pyval\<close>.

  A float is its exact rational value, or one of the three special values. Every finite
  double is a rational, so conversion of a float to an integer and the comparison of
  floats and integers are exact on this type; not every rational is a double, so a statement
  about all \<open>Finite r\<close> covers more values than Python has. The two zeros are not told apart.

  A string is a list of characters, each one code point below 256.
\<close>

datatype pyfloat = Finite rat | PosInf | NegInf | NaN

text \<open>
  Modelled from the spec: \<^verbatim>\<open>colosseum/units.py\<close> is not among the sources. The spec's unit
  parser returns a length value or a percentage value, and the two can be told apart.
  A length carries its magnitude and its suffix, a percentage its magnitude.
\<close>

datatype unit_value = LengthValue rat string | PercentValue rat

datatype pyval =
    PyNone
  | PyBool bool
  | PyInt int
  | PyFloat pyfloat
  | PyStr string
  | PyTuple "pyval list"
  | PyList "pyval list"
  | PyDict "(pyval \<times> pyval) list"
  | PyUnit unit_value

text \<open>
  Exception classes. \<open>ValidationError\<close> is declared in the source as a subclass of
  \<open>ValueError\<close>. \<open>OtherValueError\<close> stands for any further subclass of \<open>ValueError\<close> and
  \<open>OtherError\<close> for any class that is no subclass of \<open>ValueError\<close> or \<open>TypeError\<close>; a
  collaborator may raise either.
\<close>

datatype exc_class =
    ValueError
  | ValidationError
  | TypeError
  | AttributeError
  | OverflowError
  | OtherValueError string
  | OtherError string

fun is_subclass :: "exc_class \<Rightarrow> exc_class \<Rightarrow> bool" where
  "is_subclass ValidationError ValueError = True"
| "is_subclass (OtherValueError n) ValueError = True"
| "is_subclass c d = (c = d)"

text \<open>
  A message is the text of \<^verbatim>\<open>str.format\<close> with its fields kept symbolic: \<open>Lit s\<close> is literal
  text and \<open>Fmt v\<close> is the text Python's \<^verbatim>\<open>str(v)\<close> gives. An exception is its class and
  its message (\<^verbatim>\<open>str(error)\<close>). Exceptions raised by the interpreter itself (by \<^verbatim>\<open>int\<close>,
  \<^verbatim>\<open>float\<close>, a comparison or an attribute lookup) carry the empty message: their text is
  never read by the validators.
\<close>

datatype piece = Lit string | Fmt pyval

type_synonym message = "piece list"

datatype exn = Exn exc_class message

fun exc_class_of :: "exn \<Rightarrow> exc_class" where
  "exc_class_of (Exn c m) = c"

fun str_of_exn :: "exn \<Rightarrow> message" where
  "str_of_exn (Exn c m) = m"

definition isinstance_exn :: "exn \<Rightarrow> exc_class \<Rightarrow> bool" where
  "isinstance_exn e c = is_subclass (exc_class_of e) c"

subsection \<open>Rendering a message\<close>

fun digit_char :: "nat \<Rightarrow> char" where
  "digit_char n = char_of (48 + n)"

fun str_of_nat :: "nat \<Rightarrow> string" where
  "str_of_nat n = (if n < 10 then [digit_char n] else str_of_nat (n div 10) @ [digit_char (n mod 10)])"

declare str_of_nat.simps [simp del]

definition str_of_int :: "int \<Rightarrow> string" where
  "str_of_int i = (if i < 0 then CHR ''-'' # str_of_nat (nat (- i)) else str_of_nat (nat i))"

text \<open>
  \<^verbatim>\<open>str(v)\<close> for the values whose text does not depend on float formatting or on the
  absent unit classes; \<open>None\<close> for the others.
\<close>

fun py_str :: "pyval \<Rightarrow> string option" where
  "py_str PyNone = Some ''None''"
| "py_str (PyBool b) = Some (if b then ''True'' else ''False'')"
| "py_str (PyInt i) = Some (str_of_int i)"
| "py_str (PyStr s) = Some s"
| "py_str v = None"

fun render :: "message \<Rightarrow> string option" where
  "render [] = Some []"
| "render (Lit s # ps) = (case render ps of None \<Rightarrow> None | Some r \<Rightarrow> Some (s @ r))"
| "render (Fmt v # ps) =
     (case py_str v of None \<Rightarrow> None
      | Some s \<Rightarrow> (case render ps of None \<Rightarrow> None | Some r \<Rightarrow> Some (s @ r)))"

section \<open>The builtins the validators call\<close>

subsection \<open>Strings: whitespace, \<^verbatim>\<open>split\<close>, \<^verbatim>\<open>strip\<close>\<close>

text \<open>The code points below 256 for which \<^verbatim>\<open>str.isspace\<close> holds.\<close>

definition is_space :: "char \<Rightarrow> bool" where
  "is_space c = (let n = (of_char c :: nat) in
     (9 \<le> n \<and> n \<le> 13) \<or> (28 \<le> n \<and> n \<le> 32) \<or> n = 133 \<or> n = 160)"

text \<open>\<^verbatim>\<open>s.split()\<close>: the maximal runs of non-whitespace; \<open>cur\<close> is the run being read.\<close>

fun split_from :: "string \<Rightarrow> string \<Rightarrow> string list" where
  "split_from cur [] = (if cur = [] then [] else [cur])"
| "split_from cur (c # cs) =
     (if is_space c then (if cur = [] then split_from [] cs else cur # split_from [] cs)
      else split_from (cur @ [c]) cs)"

definition py_split :: "string \<Rightarrow> string list" where
  "py_split s = split_from [] s"

definition py_strip :: "string \<Rightarrow> string" where
  "py_strip s = rev (dropWhile is_space (rev (dropWhile is_space s)))"

subsection \<open>\<^verbatim>\<open>int(...)\<close>\<close>

definition digit_val :: "char \<Rightarrow> nat option" where
  "digit_val c = (let n = (of_char c :: nat) in if 48 \<le> n \<and> n \<le> 57 then Some (n - 48) else None)"

text \<open>
  \<^verbatim>\<open>int\<close> of a string skips surrounding whitespace, but not the separators
  \<^verbatim>\<open>\x1c\<close> to \<^verbatim>\<open>\x1f\<close> that \<^verbatim>\<open>str.isspace\<close> accepts.
\<close>

definition is_int_space :: "char \<Rightarrow> bool" where
  "is_int_space c = (let n = (of_char c :: nat) in
     (9 \<le> n \<and> n \<le> 13) \<or> n = 32 \<or> n = 133 \<or> n = 160)"

definition int_strip :: "string \<Rightarrow> string" where
  "int_strip s = rev (dropWhile is_int_space (rev (dropWhile is_int_space s)))"

text \<open>
  Decimal digits, single underscores allowed between digits (Python 3.6 and later);
  \<open>prev\<close> says that the character before was a digit.
\<close>

fun parse_digits :: "nat \<Rightarrow> bool \<Rightarrow> string \<Rightarrow> nat option" where
  "parse_digits acc prev [] = (if prev then Some acc else None)"
| "parse_digits acc prev (c # cs) =
     (if c = CHR ''_'' then (if prev then parse_digits acc False cs else None)
      else (case digit_val c of
              None \<Rightarrow> None
            | Some d \<Rightarrow> parse_digits (10 * acc + d) True cs))"

fun int_of_str :: "string \<Rightarrow> int option" where
  "int_of_str s =
     (case int_strip s of
        [] \<Rightarrow> None
      | c # cs \<Rightarrow>
          if c = CHR ''-'' then map_option (\<lambda>n. - int n) (parse_digits 0 False cs)
          else if c = CHR ''+'' then map_option int (parse_digits 0 False cs)
          else map_option int (parse_digits 0 False (c # cs)))"

text \<open>\<^verbatim>\<open>int(x)\<close> of a float truncates toward zero.\<close>

definition py_trunc :: "rat \<Rightarrow> int" where
  "py_trunc r = (if 0 \<le> r then \<lfloor>r\<rfloor> else \<lceil>r\<rceil>)"

text \<open>A number as \<^verbatim>\<open>int\<close> or \<^verbatim>\<open>float\<close> returns it.\<close>

datatype pynum = NInt int | NFloat pyfloat

fun num_val :: "pynum \<Rightarrow> pyval" where
  "num_val (NInt i) = PyInt i"
| "num_val (NFloat f) = PyFloat f"

text \<open>
  \<^verbatim>\<open>int(v)\<close>: \<^verbatim>\<open>ValueError\<close> for a string that is no integer literal and for NaN,
  \<^verbatim>\<open>OverflowError\<close> for an infinity, \<^verbatim>\<open>TypeError\<close> for an object with no conversion to
  \<^verbatim>\<open>int\<close>. Unit objects are taken to have none: the tests of the repository expect
  \<^verbatim>\<open>is_integer\<close> to reject \<^verbatim>\<open>20 * px\<close>.
\<close>

fun py_int :: "pyval \<Rightarrow> exn + pynum" where
  "py_int (PyInt i) = Inr (NInt i)"
| "py_int (PyBool b) = Inr (NInt (if b then 1 else 0))"
| "py_int (PyFloat (Finite r)) = Inr (NInt (py_trunc r))"
| "py_int (PyFloat NaN) = Inl (Exn ValueError [])"
| "py_int (PyFloat PosInf) = Inl (Exn OverflowError [])"
| "py_int (PyFloat NegInf) = Inl (Exn OverflowError [])"
| "py_int (PyStr s) =
     (case int_of_str s of None \<Rightarrow> Inl (Exn ValueError []) | Some i \<Rightarrow> Inr (NInt i))"
| "py_int v = Inl (Exn TypeError [])"

subsection \<open>\<^verbatim>\<open>float(...)\<close>\<close>

fun bit_length :: "nat \<Rightarrow> nat" where
  "bit_length n = (if n = 0 then 0 else Suc (bit_length (n div 2)))"

declare bit_length.simps [simp del]

text \<open>
  \<^verbatim>\<open>float(i)\<close> of an integer: exact up to 53 bits, otherwise rounded to 53 bits, ties to
  even; \<^verbatim>\<open>OverflowError\<close> when the rounded value reaches \<open>2 ^ 1024\<close>.
\<close>

definition float_of_int :: "int \<Rightarrow> exn + pyfloat" where
  "float_of_int i =
     (let a = nat \<bar>i\<bar>; n = bit_length a in
      if n \<le> 53 then Inr (Finite (of_int i))
      else
        let sh = n - 53;
            q = a div 2 ^ sh;
            r = a mod 2 ^ sh;
            half = 2 ^ (sh - 1);
            q' = (if half < r \<or> (r = half \<and> odd q) then q + 1 else q);
            m = q' * 2 ^ sh
        in if 2 ^ 1024 \<le> m then Inl (Exn OverflowError [])
           else Inr (Finite (of_int (if i < 0 then - int m else int m))))"

text \<open>
  \<^verbatim>\<open>float(v)\<close>. Reading a float from a string rounds a decimal to the nearest double;
  that function is the parameter \<open>float_of_str\<close>, which gives \<open>None\<close> where Python raises
  \<^verbatim>\<open>ValueError\<close>.
\<close>

fun py_float :: "(string \<Rightarrow> pyfloat option) \<Rightarrow> pyval \<Rightarrow> exn + pynum" where
  "py_float float_of_str (PyFloat f) = Inr (NFloat f)"
| "py_float float_of_str (PyInt i) =
     (case float_of_int i of Inl e \<Rightarrow> Inl e | Inr f \<Rightarrow> Inr (NFloat f))"
| "py_float float_of_str (PyBool b) = Inr (NFloat (Finite (if b then 1 else 0)))"
| "py_float float_of_str (PyStr s) =
     (case float_of_str s of None \<Rightarrow> Inl (Exn ValueError []) | Some f \<Rightarrow> Inr (NFloat f))"
| "py_float float_of_str v = Inl (Exn TypeError [])"

subsection \<open>Comparison of numbers\<close>

fun float_lt :: "pyfloat \<Rightarrow> pyfloat \<Rightarrow> bool" where
  "float_lt NaN y = False"
| "float_lt x NaN = False"
| "float_lt (Finite a) (Finite b) = (a < b)"
| "float_lt (Finite a) PosInf = True"
| "float_lt (Finite a) NegInf = False"
| "float_lt PosInf y = False"
| "float_lt NegInf NegInf = False"
| "float_lt NegInf y = True"

fun num_lt :: "pynum \<Rightarrow> pynum \<Rightarrow> bool" where
  "num_lt (NInt a) (NInt b) = (a < b)"
| "num_lt (NInt a) (NFloat y) = float_lt (Finite (of_int a)) y"
| "num_lt (NFloat x) (NInt b) = float_lt x (Finite (of_int b))"
| "num_lt (NFloat x) (NFloat y) = float_lt x y"

fun as_num :: "pyval \<Rightarrow> pynum option" where
  "as_num (PyInt i) = Some (NInt i)"
| "as_num (PyBool b) = Some (NInt (if b then 1 else 0))"
| "as_num (PyFloat f) = Some (NFloat f)"
| "as_num v = None"

text \<open>
  \<^verbatim>\<open>n < v\<close> and \<^verbatim>\<open>n > v\<close> for a number \<open>n\<close>: \<^verbatim>\<open>TypeError\<close> when \<open>v\<close> is no number
  (unit objects are taken to define no order with numbers). A comparison with NaN is
  false.
\<close>

definition py_lt :: "pynum \<Rightarrow> pyval \<Rightarrow> exn + bool" where
  "py_lt n v = (case as_num v of None \<Rightarrow> Inl (Exn TypeError []) | Some b \<Rightarrow> Inr (num_lt n b))"

definition py_gt :: "pynum \<Rightarrow> pyval \<Rightarrow> exn + bool" where
  "py_gt n v = (case as_num v of None \<Rightarrow> Inl (Exn TypeError []) | Some b \<Rightarrow> Inr (num_lt b n))"

section \<open>\<^verbatim>\<open>colosseum/validators.py\<close>\<close>

subsection \<open>\<^verbatim>\<open>_numeric_validator\<close>, \<^verbatim>\<open>is_number\<close>, \<^verbatim>\<open>is_integer\<close>\<close>

text \<open>The \<^verbatim>\<open>numeric_type\<close> argument: a type object with its \<^verbatim>\<open>__name__\<close> and its constructor.\<close>

record numeric_type =
  type_name :: string
  coerce :: "pyval \<Rightarrow> exn + pynum"

definition int_type :: numeric_type where
  "int_type = \<lparr>type_name = ''int'', coerce = py_int\<rparr>"

definition float_type :: "(string \<Rightarrow> pyfloat option) \<Rightarrow> numeric_type" where
  "float_type float_of_str = \<lparr>type_name = ''float'', coerce = py_float float_of_str\<rparr>"

definition numeric_validator :: "pyval \<Rightarrow> numeric_type \<Rightarrow> pyval \<Rightarrow> pyval \<Rightarrow> exn + pyval" where
  "numeric_validator num_value numeric_type min_value max_value =
     (case coerce numeric_type num_value of
        Inl e \<Rightarrow>
          if isinstance_exn e ValueError \<or> isinstance_exn e TypeError
          then Inl (Exn ValidationError
                 [Lit ''Cannot coerce '', Fmt num_value, Lit '' to '', Lit (type_name numeric_type)])
          else Inl e
      | Inr n \<Rightarrow>
          (case (if min_value \<noteq> PyNone then py_lt n min_value else Inr False) of
             Inl e \<Rightarrow> Inl e
           | Inr is_below \<Rightarrow>
               if is_below
               then Inl (Exn ValidationError
                      [Lit ''Value '', Fmt (num_val n), Lit '' below minimum value '', Fmt min_value])
               else
                 (case (if max_value \<noteq> PyNone then py_gt n max_value else Inr False) of
                    Inl e \<Rightarrow> Inl e
                  | Inr is_above \<Rightarrow>
                      if is_above
                      then Inl (Exn ValidationError
                             [Lit ''Value '', Fmt (num_val n), Lit '' above maximum value '',
                              Fmt max_value])
                      else Inr (num_val n))))"

text \<open>
  What a call gives back when it does not raise: a value, or (from \<^verbatim>\<open>is_number\<close> and
  \<^verbatim>\<open>is_integer\<close> with a bound) the inner function \<^verbatim>\<open>validator\<close>.
\<close>

datatype returned = Value pyval | Validator "pyval \<Rightarrow> exn + pyval"

fun returning :: "exn + pyval \<Rightarrow> exn + returned" where
  "returning (Inl e) = Inl e"
| "returning (Inr v) = Inr (Value v)"

text \<open>The defaults \<^verbatim>\<open>value=None, min_value=None, max_value=None\<close> are passed as \<open>PyNone\<close>.\<close>

definition is_number ::
  "(string \<Rightarrow> pyfloat option) \<Rightarrow> pyval \<Rightarrow> pyval \<Rightarrow> pyval \<Rightarrow> exn + returned" where
  "is_number float_of_str value min_value max_value =
     (let validator = (\<lambda>num_value.
            numeric_validator num_value (float_type float_of_str) min_value max_value)
      in if min_value = PyNone \<and> max_value = PyNone then returning (validator value)
         else Inr (Validator validator))"

definition is_integer :: "pyval \<Rightarrow> pyval \<Rightarrow> pyval \<Rightarrow> exn + returned" where
  "is_integer value min_value max_value =
     (let validator = (\<lambda>num_value. numeric_validator num_value int_type min_value max_value)
      in if min_value = PyNone \<and> max_value = PyNone then returning (validator value)
         else Inr (Validator validator))"

subsection \<open>\<^verbatim>\<open>is_length\<close>, \<^verbatim>\<open>is_percentage\<close>, \<^verbatim>\<open>is_color\<close>\<close>

text \<open>
  \<^verbatim>\<open>try: ... except ValueError as error: raise ValidationError(str(error))\<close> around a
  computation: a \<^verbatim>\<open>ValueError\<close> (of any subclass) is replaced, any other exception passes.
\<close>

definition except_ValueError :: "exn + 'a \<Rightarrow> exn + 'a" where
  "except_ValueError r =
     (case r of
        Inl e \<Rightarrow> if isinstance_exn e ValueError then Inl (Exn ValidationError (str_of_exn e))
                 else Inl e
      | Inr x \<Rightarrow> Inr x)"

text \<open>
  The collaborators \<^verbatim>\<open>parser.units\<close> and \<^verbatim>\<open>parser.color\<close> are not among the sources; they
  are the parameters \<open>units\<close> and \<open>color\<close>, any functions from a value to a value or an
  exception.
\<close>

definition is_length :: "(pyval \<Rightarrow> exn + pyval) \<Rightarrow> pyval \<Rightarrow> exn + pyval" where
  "is_length units value = except_ValueError (units value)"

text \<open>\<^verbatim>\<open>isinstance(value, units.Percent)\<close>.\<close>

fun is_Percent :: "pyval \<Rightarrow> bool" where
  "is_Percent (PyUnit (PercentValue p)) = True"
| "is_Percent v = False"

definition is_percentage :: "(pyval \<Rightarrow> exn + pyval) \<Rightarrow> pyval \<Rightarrow> exn + pyval" where
  "is_percentage units value =
     (case except_ValueError (units value) of
        Inl e \<Rightarrow> Inl e
      | Inr parsed \<Rightarrow>
          if \<not> is_Percent parsed
          then Inl (Exn ValidationError [Lit ''Value '', Fmt parsed, Lit '' is not a Percent unit''])
          else Inr parsed)"

definition is_color :: "(pyval \<Rightarrow> exn + pyval) \<Rightarrow> pyval \<Rightarrow> exn + pyval" where
  "is_color color value = except_ValueError (color value)"

subsection \<open>\<^verbatim>\<open>is_border_spacing\<close>\<close>

text \<open>\<^verbatim>\<open>isinstance(value, Sequence)\<close> for the values of \<open>pyval\<close>, and \<^verbatim>\<open>isinstance(value, str)\<close>.\<close>

fun is_Sequence :: "pyval \<Rightarrow> bool" where
  "is_Sequence (PyTuple xs) = True"
| "is_Sequence (PyList xs) = True"
| "is_Sequence (PyStr s) = True"
| "is_Sequence v = False"

fun is_str :: "pyval \<Rightarrow> bool" where
  "is_str (PyStr s) = True"
| "is_str v = False"

text \<open>\<^verbatim>\<open>isinstance(value, (int, float))\<close>; \<^verbatim>\<open>bool\<close> is a subclass of \<^verbatim>\<open>int\<close>.\<close>

fun is_int_or_float :: "pyval \<Rightarrow> bool" where
  "is_int_or_float (PyInt i) = True"
| "is_int_or_float (PyBool b) = True"
| "is_int_or_float (PyFloat f) = True"
| "is_int_or_float v = False"

fun items :: "pyval \<Rightarrow> pyval list" where
  "items (PyTuple xs) = xs"
| "items (PyList xs) = xs"
| "items v = []"

text \<open>
  Lines 118 to 123: the \<^verbatim>\<open>values\<close> the input is split into. In the last branch
  \<^verbatim>\<open>value.split()\<close> raises \<^verbatim>\<open>AttributeError\<close> unless the value is a string.
\<close>

definition border_spacing_values :: "pyval \<Rightarrow> exn + pyval list" where
  "border_spacing_values value =
     (if is_Sequence value \<and> \<not> is_str value then Inr (items value)
      else if is_int_or_float value then Inr [value]
      else (case value of
              PyStr s \<Rightarrow> Inr (map (\<lambda>x. PyStr (py_strip x)) (py_split s))
            | _ \<Rightarrow> Inl (Exn AttributeError [])))"

definition is_border_spacing :: "(pyval \<Rightarrow> exn + pyval) \<Rightarrow> pyval \<Rightarrow> exn + pyval" where
  "is_border_spacing units value =
     (case border_spacing_values value of
        Inl e \<Rightarrow> Inl e
      | Inr vals \<Rightarrow>
          if length vals = 1 then
            except_ValueError
              (case is_length units (vals ! 0) of
                 Inl e \<Rightarrow> Inl e
               | Inr horizontal \<Rightarrow> Inr (PyTuple [horizontal]))
          else if length vals = 2 then
            except_ValueError
              (case is_length units (vals ! 0) of
                 Inl e \<Rightarrow> Inl e
               | Inr horizontal \<Rightarrow>
                   (case is_length units (vals ! 1) of
                      Inl e \<Rightarrow> Inl e
                    | Inr vertical \<Rightarrow> Inr (PyTuple [horizontal, vertical])))
          else Inl (Exn ValidationError [Lit ''Should provide 1 or 2 <length> values!'']))"

subsection \<open>The \<^verbatim>\<open>description\<close> attributes\<close>

text \<open>
  A validator as \<^verbatim>\<open>Choices\<close> uses it: a function object called with one argument, with
  the \<^verbatim>\<open>description\<close> the module assigns to it after its definition.
\<close>

record validator =
  call :: "pyval \<Rightarrow> exn + returned"
  description :: string

definition is_number_fn :: "(string \<Rightarrow> pyfloat option) \<Rightarrow> validator" where
  "is_number_fn float_of_str =
     \<lparr>call = (\<lambda>v. is_number float_of_str v PyNone PyNone), description = ''<number>''\<rparr>"

definition is_integer_fn :: validator where
  "is_integer_fn = \<lparr>call = (\<lambda>v. is_integer v PyNone PyNone), description = ''<integer>''\<rparr>"

definition is_length_fn :: "(pyval \<Rightarrow> exn + pyval) \<Rightarrow> validator" where
  "is_length_fn units = \<lparr>call = (\<lambda>v. returning (is_length units v)), description = ''<length>''\<rparr>"

definition is_percentage_fn :: "(pyval \<Rightarrow> exn + pyval) \<Rightarrow> validator" where
  "is_percentage_fn units =
     \<lparr>call = (\<lambda>v. returning (is_percentage units v)), description = ''<percentage>''\<rparr>"

definition is_color_fn :: "(pyval \<Rightarrow> exn + pyval) \<Rightarrow> validator" where
  "is_color_fn color = \<lparr>call = (\<lambda>v. returning (is_color color v)), description = ''<color>''\<rparr>"

definition is_border_spacing_fn :: "(pyval \<Rightarrow> exn + pyval) \<Rightarrow> validator" where
  "is_border_spacing_fn units =
     \<lparr>call = (\<lambda>v. returning (is_border_spacing units v)), description = ''<length> <length>?''\<rparr>"

subsection \<open>A unit parser to run the validators on\<close>

text \<open>
  The theorems below hold for every unit parser. To evaluate the validators on concrete
  inputs a parser is needed; this small one accepts unit objects, integers (as pixels) and
  the two strings \<^verbatim>\<open>10px\<close> and \<^verbatim>\<open>50%\<close>, raises \<^verbatim>\<open>ValueError\<close> on every other
  string and number, and, as an attribute lookup on \<^verbatim>\<open>None\<close> would, \<^verbatim>\<open>AttributeError\<close> on
  the remaining values.
\<close>

fun sample_units :: "pyval \<Rightarrow> exn + pyval" where
  "sample_units (PyUnit u) = Inr (PyUnit u)"
| "sample_units (PyInt n) = Inr (PyUnit (LengthValue (of_int n) ''px''))"
| "sample_units (PyStr s) =
     (if s = ''10px'' then Inr (PyUnit (LengthValue 10 ''px''))
      else if s = ''50%'' then Inr (PyUnit (PercentValue 50))
      else Inl (Exn ValueError [Lit ''Unknown size '', Fmt (PyStr s)]))"
| "sample_units (PyFloat f) = Inl (Exn ValueError [Lit ''Unknown size '', Fmt (PyFloat f)])"
| "sample_units (PyBool b) = Inl (Exn ValueError [Lit ''Unknown size '', Fmt (PyBool b)])"
| "sample_units v = Inl (Exn AttributeError [])"

text \<open>
  Likewise a reader of floats from strings, for the parameter \<open>float_of_str\<close>: it knows
  three strings.
\<close>

definition sample_float_of_str :: "string \<Rightarrow> pyfloat option" where
  "sample_float_of_str s =
     (if s = ''1.5'' then Some (Finite (3 / 2))
      else if s = ''inf'' then Some PosInf
      else if s = ''nan'' then Some NaN
      else None)"

section \<open>\<^verbatim>\<open>Choices\<close> and the validation of a property\<close>

text \<open>
  Modelled from the spec: \<^verbatim>\<open>colosseum/constants.py\<close> (\<^verbatim>\<open>Choices\<close>) and
  \<^verbatim>\<open>colosseum/declaration.py\<close> (\<^verbatim>\<open>validated_property\<close>) are not among the sources; only
  their tests are. The definitions of this section follow sections 3, 4.1, 4.3 and 9 of the
  spec: a \<^verbatim>\<open>Choices\<close> has literal constants (\<^verbatim>\<open>None\<close> and keywords), validators and
  explicit defaulting constants; a value is tried against the constants (a string matches
  a keyword whatever its case, and resolves to the constant), then against the validators
  in order, the first success winning; when nothing matches, the failure lists every legal
  form, sorted: each validator gives its \<^verbatim>\<open>description\<close>, each constant its keyword or
  \<^verbatim>\<open>none\<close>; setting a property raises the failure with the property's name in it.
\<close>

datatype choice_constant = NoneConstant | Keyword string

fun constant_value :: "choice_constant \<Rightarrow> pyval" where
  "constant_value NoneConstant = PyNone"
| "constant_value (Keyword k) = PyStr k"

fun constant_token :: "choice_constant \<Rightarrow> string" where
  "constant_token NoneConstant = ''none''"
| "constant_token (Keyword k) = k"

text \<open>\<^verbatim>\<open>str.lower\<close> on the code points below 256.\<close>

definition py_lower_char :: "char \<Rightarrow> char" where
  "py_lower_char c = (let n = (of_char c :: nat) in
     if (65 \<le> n \<and> n \<le> 90) \<or> (192 \<le> n \<and> n \<le> 222 \<and> n \<noteq> 215) then char_of (n + 32) else c)"

definition py_lower :: "string \<Rightarrow> string" where
  "py_lower s = map py_lower_char s"

fun matches_constant :: "pyval \<Rightarrow> choice_constant \<Rightarrow> bool" where
  "matches_constant (PyStr s) c =
     (PyStr s = constant_value c \<or> py_lower s = py_lower (constant_token c))"
| "matches_constant v c = (v = constant_value c)"

record choices =
  constants :: "choice_constant list"
  validators :: "validator list"
  explicit_defaulting_constants :: "choice_constant list"

text \<open>
  The validators in order; a validator that fails with a \<^verbatim>\<open>ValueError\<close> (a
  \<^verbatim>\<open>ValidationError\<close> is one) has rejected the value, and the next is tried. \<open>None\<close>: no
  validator accepted.
\<close>

fun first_accepting :: "validator list \<Rightarrow> pyval \<Rightarrow> (exn + returned) option" where
  "first_accepting [] v = None"
| "first_accepting (f # fs) v =
     (case call f v of
        Inr r \<Rightarrow> Some (Inr r)
      | Inl e \<Rightarrow> if isinstance_exn e ValueError then first_accepting fs v else Some (Inl e))"

fun join :: "string \<Rightarrow> string list \<Rightarrow> string" where
  "join sep [] = []"
| "join sep [x] = x"
| "join sep (x # y # ys) = x @ sep @ join sep (y # ys)"

text \<open>The legal forms, sorted as Python sorts strings (by code point), joined by commas.\<close>

definition legal_forms :: "choices \<Rightarrow> string list" where
  "legal_forms ch =
     sort (map constant_token (constants ch) @ map description (validators ch) @
           map constant_token (explicit_defaulting_constants ch))"

definition choices_str :: "choices \<Rightarrow> string" where
  "choices_str ch = join '', '' (legal_forms ch)"

definition choices_validate :: "choices \<Rightarrow> pyval \<Rightarrow> exn + returned" where
  "choices_validate ch v =
     (case find (matches_constant v) (constants ch @ explicit_defaulting_constants ch) of
        Some c \<Rightarrow> Inr (Value (constant_value c))
      | None \<Rightarrow>
          (case first_accepting (validators ch) v of
             Some r \<Rightarrow> r
           | None \<Rightarrow> Inl (Exn ValidationError [Lit (choices_str ch)])))"

text \<open>
  The validation a property set starts with: the failure of \<^verbatim>\<open>Choices\<close> is raised again
  in the format
  \<^verbatim>\<open>Invalid value '<value>' for CSS property '<name>'; Valid values are: <a>, <b>, ...\<close>.
\<close>

definition property_validate :: "string \<Rightarrow> choices \<Rightarrow> pyval \<Rightarrow> exn + returned" where
  "property_validate name ch v =
     (case choices_validate ch v of
        Inr r \<Rightarrow> Inr r
      | Inl e \<Rightarrow>
          if isinstance_exn e ValueError
          then Inl (Exn ValidationError
                 [Lit (''Invalid value '' @ [CHR 0x27]), Fmt v,
                  Lit ([CHR 0x27] @ '' for CSS property '' @ [CHR 0x27]), Lit name,
                  Lit ([CHR 0x27] @ ''; Valid values are: ''), Lit (choices_str ch)])
          else Inl e)"

text \<open>The \<^verbatim>\<open>Choices\<close> of the test \<^verbatim>\<open>test_all_choices\<close>.\<close>

definition all_choices ::
  "(string \<Rightarrow> pyfloat option) \<Rightarrow> (pyval \<Rightarrow> exn + pyval) \<Rightarrow> (pyval \<Rightarrow> exn + pyval) \<Rightarrow> choices" where
  "all_choices float_of_str units color =
     \<lparr>constants = [Keyword ''a'', Keyword ''b'', NoneConstant],
      validators = [is_integer_fn, is_number_fn float_of_str, is_length_fn units,
                    is_percentage_fn units, is_color_fn color],
      explicit_defaulting_constants =
        [Keyword ''initial'', Keyword ''inherit'', Keyword ''unset'', Keyword ''revert'']\<rparr>"

text \<open>A colour parser to run the validators on: it knows one colour.\<close>

definition sample_color :: "pyval \<Rightarrow> exn + pyval" where
  "sample_color v =
     (if v = PyStr ''#112233'' then Inr (PyStr ''#112233'')
      else Inl (Exn ValueError [Lit ''Unknown color '', Fmt v]))"

section \<open>Properties\<close>

subsection \<open>Helper facts\<close>

lemma except_ValueError_Inr: "except_ValueError (Inr x) = Inr x"
  by (simp add: except_ValueError_def)

lemma except_ValueError_caught:
  "isinstance_exn e ValueError \<Longrightarrow>
   except_ValueError (Inl e) = Inl (Exn ValidationError (str_of_exn e))"
  by (simp add: except_ValueError_def)

lemma except_ValueError_passed:
  "\<not> isinstance_exn e ValueError \<Longrightarrow> except_ValueError (Inl e) = Inl e"
  by (simp add: except_ValueError_def)

lemma isinstance_ValidationError: "isinstance_exn (Exn ValidationError m) ValueError"
  by (simp add: isinstance_exn_def)

text \<open>Catching twice changes nothing: the replacement is itself a \<^verbatim>\<open>ValueError\<close> with the same message.\<close>

lemma except_ValueError_idem: "except_ValueError (except_ValueError r) = except_ValueError r"
  by (cases r) (simp_all add: except_ValueError_def isinstance_exn_def)

subsection \<open>\<^verbatim>\<open>is_length\<close>\<close>

text \<open>
  C5. For every input value and every unit parser, \<^verbatim>\<open>is_length\<close> returns the
  parser's result unchanged when the parser succeeds; when the parser raises a
  \<^verbatim>\<open>ValueError\<close> (of any subclass), \<^verbatim>\<open>is_length\<close> raises a \<^verbatim>\<open>ValidationError\<close> whose message
  is the message of the parser's exception. (An exception of the parser that is no
  \<^verbatim>\<open>ValueError\<close> passes through.)
\<close>

theorem is_length_delegates:
  "(units value = Inr parsed \<longrightarrow> is_length units value = Inr parsed) \<and>
   (units value = Inl e \<and> isinstance_exn e ValueError \<longrightarrow>
      is_length units value = Inl (Exn ValidationError (str_of_exn e))) \<and>
   (units value = Inl e \<and> \<not> isinstance_exn e ValueError \<longrightarrow>
      is_length units value = Inl e)"
  by (simp add: is_length_def except_ValueError_def)

theorem is_length_delegates_witness:
  "is_length sample_units (PyInt 10) = Inr (PyUnit (LengthValue 10 ''px'')) \<and>
   is_length sample_units (PyStr ''wide'') =
     Inl (Exn ValidationError [Lit ''Unknown size '', Fmt (PyStr ''wide'')]) \<and>
   is_length sample_units PyNone = Inl (Exn AttributeError [])"
proof -
  have ok: "sample_units (PyInt 10) = Inr (PyUnit (LengthValue 10 ''px''))"
    by simp
  have bad: "sample_units (PyStr ''wide'') = Inl (Exn ValueError [Lit ''Unknown size '', Fmt (PyStr ''wide'')])
      \<and> isinstance_exn (Exn ValueError [Lit ''Unknown size '', Fmt (PyStr ''wide'')]) ValueError"
    by (simp add: isinstance_exn_def)
  have other: "sample_units PyNone = Inl (Exn AttributeError [])
      \<and> \<not> isinstance_exn (Exn AttributeError []) ValueError"
    by (simp add: isinstance_exn_def)
  from is_length_delegates [of sample_units "PyInt 10" "PyUnit (LengthValue 10 ''px'')"] ok
  have 1: "is_length sample_units (PyInt 10) = Inr (PyUnit (LengthValue 10 ''px''))"
    by blast
  from is_length_delegates [of sample_units "PyStr ''wide''" _
      "Exn ValueError [Lit ''Unknown size '', Fmt (PyStr ''wide'')]"] bad
  have 2: "is_length sample_units (PyStr ''wide'') =
      Inl (Exn ValidationError [Lit ''Unknown size '', Fmt (PyStr ''wide'')])"
    by simp
  from is_length_delegates [of sample_units PyNone _ "Exn AttributeError []"] other
  have 3: "is_length sample_units PyNone = Inl (Exn AttributeError [])"
    by blast
  from 1 2 3 show ?thesis by blast
qed

subsection \<open>\<^verbatim>\<open>is_percentage\<close>\<close>

text \<open>
  C4. For every input value and every unit parser: \<^verbatim>\<open>is_percentage\<close> succeeds exactly
  when \<^verbatim>\<open>is_length\<close> succeeds with a value that is an instance of \<^verbatim>\<open>units.Percent\<close>, and
  then returns that same value; when \<^verbatim>\<open>is_length\<close> raises, \<^verbatim>\<open>is_percentage\<close> raises the same
  exception; when \<^verbatim>\<open>is_length\<close> returns a value that is no \<^verbatim>\<open>Percent\<close>, \<^verbatim>\<open>is_percentage\<close>
  raises a \<^verbatim>\<open>ValidationError\<close>.
\<close>

theorem is_percentage_is_length:
  "((\<exists>p. is_percentage units value = Inr p) \<longleftrightarrow>
      (\<exists>p. is_length units value = Inr p \<and> is_Percent p)) \<and>
   (is_percentage units value = Inr p \<longrightarrow> is_length units value = Inr p) \<and>
   (is_length units value = Inl e \<longrightarrow> is_percentage units value = Inl e) \<and>
   (is_length units value = Inr q \<and> \<not> is_Percent q \<longrightarrow>
      is_percentage units value =
        Inl (Exn ValidationError [Lit ''Value '', Fmt q, Lit '' is not a Percent unit'']))"
  by (auto simp add: is_percentage_def is_length_def split: sum.splits if_splits)

theorem is_percentage_is_length_witness:
  "is_percentage sample_units (PyStr ''50%'') = Inr (PyUnit (PercentValue 50)) \<and>
   is_length sample_units (PyStr ''50%'') = Inr (PyUnit (PercentValue 50)) \<and>
   is_percentage sample_units (PyStr ''wide'') =
     Inl (Exn ValidationError [Lit ''Unknown size '', Fmt (PyStr ''wide'')]) \<and>
   is_percentage sample_units (PyInt 10) =
     Inl (Exn ValidationError
       [Lit ''Value '', Fmt (PyUnit (LengthValue 10 ''px'')), Lit '' is not a Percent unit''])"
proof -
  have a: "is_percentage sample_units (PyStr ''50%'') = Inr (PyUnit (PercentValue 50))"
    by (simp add: is_percentage_def except_ValueError_def)
  have b: "is_length sample_units (PyStr ''wide'') =
      Inl (Exn ValidationError [Lit ''Unknown size '', Fmt (PyStr ''wide'')])"
    by (simp add: is_length_def except_ValueError_def isinstance_exn_def)
  have c: "is_length sample_units (PyInt 10) = Inr (PyUnit (LengthValue 10 ''px''))
      \<and> \<not> is_Percent (PyUnit (LengthValue 10 ''px''))"
    by (simp add: is_length_def except_ValueError_def)
  from is_percentage_is_length [of sample_units "PyStr ''50%''" "PyUnit (PercentValue 50)"] a
  have 1: "is_length sample_units (PyStr ''50%'') = Inr (PyUnit (PercentValue 50))"
    by blast
  from is_percentage_is_length [of sample_units "PyStr ''wide''" _
      "Exn ValidationError [Lit ''Unknown size '', Fmt (PyStr ''wide'')]"] b
  have 2: "is_percentage sample_units (PyStr ''wide'') =
      Inl (Exn ValidationError [Lit ''Unknown size '', Fmt (PyStr ''wide'')])"
    by blast
  from is_percentage_is_length [of sample_units "PyInt 10" _ _ "PyUnit (LengthValue 10 ''px'')"] c
  have 3: "is_percentage sample_units (PyInt 10) =
      Inl (Exn ValidationError
        [Lit ''Value '', Fmt (PyUnit (LengthValue 10 ''px'')), Lit '' is not a Percent unit''])"
    by blast
  from a 1 2 3 show ?thesis by blast
qed

subsection \<open>The \<^verbatim>\<open>description\<close> attributes\<close>

text \<open>
  C8. Every validator carries a \<^verbatim>\<open>description\<close>: \<^verbatim>\<open><number>\<close> for \<^verbatim>\<open>is_number\<close>,
  \<^verbatim>\<open><integer>\<close> for \<^verbatim>\<open>is_integer\<close>, \<^verbatim>\<open><length>\<close> for \<^verbatim>\<open>is_length\<close>, \<^verbatim>\<open><percentage>\<close> for
  \<^verbatim>\<open>is_percentage\<close>, \<^verbatim>\<open><color>\<close> for \<^verbatim>\<open>is_color\<close> and \<^verbatim>\<open><length> <length>?\<close> for
  \<^verbatim>\<open>is_border_spacing\<close>.
\<close>

theorem validator_descriptions:
  "description (is_number_fn float_of_str) = ''<number>'' \<and>
   description is_integer_fn = ''<integer>'' \<and>
   description (is_length_fn units) = ''<length>'' \<and>
   description (is_percentage_fn units) = ''<percentage>'' \<and>
   description (is_color_fn color) = ''<color>'' \<and>
   description (is_border_spacing_fn units) = ''<length> <length>?''"
  by (simp add: is_number_fn_def is_integer_fn_def is_length_fn_def is_percentage_fn_def
      is_color_fn_def is_border_spacing_fn_def)

subsection \<open>\<^verbatim>\<open>is_number\<close> and \<^verbatim>\<open>is_integer\<close>: the two modes\<close>

lemma returning_no_Validator: "returning r \<noteq> Inr (Validator f)"
  by (cases r) simp_all





subsection \<open>\<^verbatim>\<open>_numeric_validator\<close>: coercion and bounds\<close>

lemma float_lt_irrefl: "\<not> float_lt x x"
  by (cases x) simp_all

lemma num_lt_irrefl: "\<not> num_lt n n"
  by (cases n) (simp_all add: float_lt_irrefl)

text \<open>
  With numeric bounds (or none) and a coercion that succeeds, the result is decided by
  the two strict comparisons: below the minimum, above the maximum, or returned.
\<close>

lemma numeric_validator_bounds:
  assumes "coerce numeric_type v = Inr n"
    and "min_value = PyNone \<or> as_num min_value = Some lo"
    and "max_value = PyNone \<or> as_num max_value = Some hi"
  shows "numeric_validator v numeric_type min_value max_value =
     (if min_value \<noteq> PyNone \<and> num_lt n lo
      then Inl (Exn ValidationError
             [Lit ''Value '', Fmt (num_val n), Lit '' below minimum value '', Fmt min_value])
      else if max_value \<noteq> PyNone \<and> num_lt hi n
      then Inl (Exn ValidationError
             [Lit ''Value '', Fmt (num_val n), Lit '' above maximum value '', Fmt max_value])
      else Inr (num_val n))"
  using assms by (auto simp add: numeric_validator_def py_lt_def py_gt_def)

text \<open>The bounds are inclusive: a value that is the bound itself is returned.\<close>

lemma numeric_validator_at_bound:
  assumes "coerce numeric_type v = Inr n"
    and "as_num min_value = Some n" and "as_num max_value = Some n"
  shows "numeric_validator v numeric_type min_value max_value = Inr (num_val n)"
  using assms numeric_validator_bounds [of numeric_type v n min_value n max_value n]
  by (simp add: num_lt_irrefl)

lemma bit_length_power2: "bit_length (2 ^ k) = Suc k"
proof (induction k)
  case 0
  have "bit_length (Suc 0) = Suc (bit_length 0)"
    by (subst bit_length.simps) simp
  also have "bit_length 0 = 0"
    by (subst bit_length.simps) simp
  finally show ?case by simp
next
  case (Suc k)
  have "bit_length (2 ^ Suc k) = Suc (bit_length (2 ^ Suc k div 2))"
    by (subst bit_length.simps) simp
  with Suc show ?case by simp
qed

lemma float_of_int_overflow: "float_of_int (2 ^ 1024) = Inl (Exn OverflowError [])"
proof -
  have a: "nat \<bar>2 ^ 1024 :: int\<bar> = 2 ^ 1024"
    by (simp add: nat_power_eq)
  have n: "bit_length (2 ^ 1024) = 1025"
    using bit_length_power2 [of 1024] by simp
  have q: "(2 ^ 1024 :: nat) div 2 ^ 972 = 2 ^ 52"
    by (simp add: power_diff [symmetric])
  have r: "(2 ^ 1024 :: nat) mod 2 ^ 972 = 0"
    by (simp add: le_imp_power_dvd)
  have m: "(2 ^ 52 :: nat) * 2 ^ 972 = 2 ^ 1024"
    by (simp add: power_add [symmetric])
  have sh: "(1025 :: nat) - 53 = 972" "(972 :: nat) - 1 = 971"
    by simp_all
  have pick: "(if (2 ^ 971 :: nat) < 0 \<or> (0 :: nat) = 2 ^ 971 \<and> odd (2 ^ 52 :: nat)
      then (2 ^ 52 :: nat) + 1 else 2 ^ 52) = 2 ^ 52"
    by simp
  show ?thesis
    unfolding float_of_int_def Let_def a n
    apply (simp only: sh q r pick m)
    apply simp
    done
qed

lemma is_number_overflow:
  "float_of_int i = Inl (Exn OverflowError []) \<Longrightarrow>
   is_number fs (PyInt i) PyNone PyNone = Inl (Exn OverflowError [])"
  by (simp add: is_number_def numeric_validator_def float_type_def isinstance_exn_def)

text \<open>
  C3. The claim: whenever the coercion to \<^verbatim>\<open>int\<close> or \<^verbatim>\<open>float\<close> fails, a
  \<^verbatim>\<open>ValidationError\<close> is raised. On the code: \<^verbatim>\<open>int(float('inf'))\<close> and
  \<^verbatim>\<open>float(2 ** 1024)\<close> raise \<^verbatim>\<open>OverflowError\<close>, which is no \<^verbatim>\<open>ValueError\<close> and no
  \<^verbatim>\<open>TypeError\<close>, so \<^verbatim>\<open>is_integer\<close> and \<^verbatim>\<open>is_number\<close>, and the validators they return, let
  it escape.
\<close>

theorem coercion_overflow_escapes:
  "is_integer (PyFloat PosInf) PyNone PyNone = Inl (Exn OverflowError []) \<and>
   numeric_validator (PyFloat PosInf) int_type (PyInt 0) PyNone = Inl (Exn OverflowError []) \<and>
   is_number sample_float_of_str (PyInt (2 ^ 1024)) PyNone PyNone = Inl (Exn OverflowError []) \<and>
   \<not> isinstance_exn (Exn OverflowError []) ValidationError \<and>
   \<not> isinstance_exn (Exn OverflowError []) ValueError"
  using is_number_overflow [OF float_of_int_overflow, of sample_float_of_str]
  by (simp add: is_integer_def numeric_validator_def int_type_def isinstance_exn_def)

subsection \<open>\<^verbatim>\<open>is_integer\<close> on floats and on strings\<close>











subsection \<open>\<^verbatim>\<open>is_border_spacing\<close>\<close>

text \<open>
  The tokens of \<^verbatim>\<open>s.split()\<close> are not empty and hold no whitespace, and together they are
  the non-whitespace characters of \<open>s\<close> in order; so \<^verbatim>\<open>x.strip()\<close> leaves each as it is.
\<close>

lemma split_from_tokens:
  "\<forall>c \<in> set cur. \<not> is_space c \<Longrightarrow> t \<in> set (split_from cur s) \<Longrightarrow>
   t \<noteq> [] \<and> (\<forall>c \<in> set t. \<not> is_space c)"
proof (induction s arbitrary: cur)
  case Nil
  then show ?case
    by (auto split: if_splits)
next
  case (Cons c cs)
  show ?case
  proof (cases "is_space c")
    case True
    with Cons.prems(2) have "t = cur \<and> cur \<noteq> [] \<or> t \<in> set (split_from [] cs)"
      by (auto split: if_splits)
    then show ?thesis
    proof
      assume "t = cur \<and> cur \<noteq> []"
      with Cons.prems(1) show ?thesis by simp
    next
      assume "t \<in> set (split_from [] cs)"
      with Cons.IH [of "[]"] show ?thesis by simp
    qed
  next
    case False
    with Cons.prems(2) have "t \<in> set (split_from (cur @ [c]) cs)"
      by simp
    moreover from False Cons.prems(1) have "\<forall>x \<in> set (cur @ [c]). \<not> is_space x"
      by simp
    ultimately show ?thesis
      by (rule Cons.IH [rotated])
  qed
qed

lemma split_from_concat:
  "concat (split_from cur s) = cur @ filter (\<lambda>c. \<not> is_space c) s"
proof (induction s arbitrary: cur)
  case Nil
  then show ?case by simp
next
  case (Cons c cs)
  then show ?case
    by (cases "is_space c") auto
qed

lemma py_split_tokens:
  "t \<in> set (py_split s) \<Longrightarrow> t \<noteq> [] \<and> (\<forall>c \<in> set t. \<not> is_space c)"
  unfolding py_split_def using split_from_tokens [of "[]" t s] by simp

lemma py_split_concat: "concat (py_split s) = filter (\<lambda>c. \<not> is_space c) s"
  by (simp add: py_split_def split_from_concat)

lemma dropWhile_none: "\<forall>c \<in> set t. \<not> p c \<Longrightarrow> dropWhile p t = t"
  by (cases t) simp_all

lemma py_strip_token: "\<forall>c \<in> set t. \<not> is_space c \<Longrightarrow> py_strip t = t"
  by (simp add: py_strip_def dropWhile_none)

lemma strip_split: "map (\<lambda>x. PyStr (py_strip x)) (py_split s) = map PyStr (py_split s)"
  using py_split_tokens [of _ s] by (simp add: py_strip_token)

text \<open>The three shapes of input the first lines of \<^verbatim>\<open>is_border_spacing\<close> tell apart.\<close>

lemma border_spacing_values_shapes:
  "border_spacing_values (PyTuple xs) = Inr xs"
  "border_spacing_values (PyList xs) = Inr xs"
  "border_spacing_values (PyInt i) = Inr [PyInt i]"
  "border_spacing_values (PyBool b) = Inr [PyBool b]"
  "border_spacing_values (PyFloat f) = Inr [PyFloat f]"
  "border_spacing_values (PyStr s) = Inr (map PyStr (py_split s))"
  "border_spacing_values PyNone = Inl (Exn AttributeError [])"
  "border_spacing_values (PyDict d) = Inl (Exn AttributeError [])"
  "border_spacing_values (PyUnit u) = Inl (Exn AttributeError [])"
  by (simp_all add: border_spacing_values_def strip_split)

text \<open>The handler around \<^verbatim>\<open>is_length\<close> changes nothing: \<^verbatim>\<open>is_length\<close> has caught already.\<close>

lemma is_length_caught_already:
  "except_ValueError (case is_length units a of Inl e \<Rightarrow> Inl e | Inr h \<Rightarrow> Inr (f h)) =
   (case is_length units a of Inl e \<Rightarrow> Inl e | Inr h \<Rightarrow> Inr (f h))"
  by (cases "units a")
    (simp_all add: is_length_def except_ValueError_def isinstance_exn_def)

lemma is_border_spacing_one:
  "border_spacing_values v = Inr [a] \<Longrightarrow>
   is_border_spacing units v =
     (case is_length units a of Inl e \<Rightarrow> Inl e | Inr h \<Rightarrow> Inr (PyTuple [h]))"
  by (simp add: is_border_spacing_def is_length_caught_already)

lemma is_border_spacing_two:
  "border_spacing_values v = Inr [a, b] \<Longrightarrow>
   is_border_spacing units v =
     (case is_length units a of
        Inl e \<Rightarrow> Inl e
      | Inr h \<Rightarrow> (case is_length units b of Inl e \<Rightarrow> Inl e | Inr w \<Rightarrow> Inr (PyTuple [h, w])))"
proof -
  assume v: "border_spacing_values v = Inr [a, b]"
  show ?thesis
  proof (cases "is_length units a")
    case (Inl e)
    with is_length_caught_already [where units = units and a = a and f = "\<lambda>h. h"] v show ?thesis
      by (simp add: is_border_spacing_def)
  next
    case (Inr h)
    with is_length_caught_already [where units = units and a = b and f = "\<lambda>w. PyTuple [h, w]"] v show ?thesis
      by (simp add: is_border_spacing_def)
  qed
qed

lemma is_border_spacing_other:
  "border_spacing_values v = Inr vals \<Longrightarrow> length vals \<noteq> 1 \<Longrightarrow> length vals \<noteq> 2 \<Longrightarrow>
   is_border_spacing units v =
     Inl (Exn ValidationError [Lit ''Should provide 1 or 2 <length> values!''])"
  by (simp add: is_border_spacing_def)

lemma is_border_spacing_no_values:
  "border_spacing_values v = Inl e \<Longrightarrow> is_border_spacing units v = Inl e"
  by (simp add: is_border_spacing_def)

text \<open>Where an exception of a validator comes from.\<close>

lemma except_ValueError_errors:
  "except_ValueError r = Inl e \<Longrightarrow>
   exc_class_of e = ValidationError \<or> (r = Inl e \<and> \<not> isinstance_exn e ValueError)"
  by (cases r) (auto simp add: except_ValueError_def split: if_splits)

lemma is_length_errors:
  "is_length units v = Inl e \<Longrightarrow>
   exc_class_of e = ValidationError \<or> (units v = Inl e \<and> \<not> isinstance_exn e ValueError)"
  unfolding is_length_def by (rule except_ValueError_errors)

lemma is_color_errors:
  "is_color color v = Inl e \<Longrightarrow>
   exc_class_of e = ValidationError \<or> (color v = Inl e \<and> \<not> isinstance_exn e ValueError)"
  unfolding is_color_def by (rule except_ValueError_errors)

lemma is_percentage_errors:
  "is_percentage units v = Inl e \<Longrightarrow>
   exc_class_of e = ValidationError \<or> (units v = Inl e \<and> \<not> isinstance_exn e ValueError)"
  using except_ValueError_errors [of "units v" e]
  by (auto simp add: is_percentage_def split: sum.splits if_splits)

lemma border_spacing_values_errors:
  "border_spacing_values v = Inl e \<Longrightarrow>
   e = Exn AttributeError [] \<and> \<not> (is_Sequence v \<and> \<not> is_str v) \<and> \<not> is_int_or_float v \<and> \<not> is_str v"
  by (cases v) (simp_all add: border_spacing_values_shapes)

lemma border_spacing_values_accepts:
  "(\<exists>vals. border_spacing_values v = Inr vals) \<longleftrightarrow>
   (is_Sequence v \<and> \<not> is_str v) \<or> is_int_or_float v \<or> is_str v"
  by (cases v) (simp_all add: border_spacing_values_shapes)

lemma is_border_spacing_errors:
  assumes "is_border_spacing units v = Inl e"
  shows "exc_class_of e = ValidationError \<or>
     (\<exists>a. units a = Inl e \<and> \<not> isinstance_exn e ValueError) \<or>
     (border_spacing_values v = Inl e \<and> e = Exn AttributeError [])"
proof (cases "border_spacing_values v")
  case (Inl x)
  with assms is_border_spacing_no_values [of v x units] have "x = e"
    by simp
  with Inl border_spacing_values_errors [of v x] show ?thesis
    by simp
next
  case (Inr vals)
  consider a where "vals = [a]" | a b where "vals = [a, b]"
    | "length vals \<noteq> 1" "length vals \<noteq> 2"
    by (cases vals rule: list.exhaust; simp)
      (metis length_0_conv length_Suc_conv)
  then show ?thesis
  proof cases
    case 1
    with Inr assms is_border_spacing_one [of v a units] have "is_length units a = Inl e"
      by (auto split: sum.splits)
    from is_length_errors [OF this] show ?thesis
      by blast
  next
    case 2
    with Inr assms is_border_spacing_two [of v a b units]
    have "is_length units a = Inl e \<or> is_length units b = Inl e"
      by (auto split: sum.splits)
    with is_length_errors [of units a e] is_length_errors [of units b e] show ?thesis
      by blast
  next
    case 3
    with Inr assms is_border_spacing_other [of v vals units]
    have "e = Exn ValidationError [Lit ''Should provide 1 or 2 <length> values!'']"
      by simp
    then show ?thesis
      by simp
  qed
qed

text \<open>
  C1. For every input value: the value is split into \<^verbatim>\<open>values\<close> exactly when it is a
  sequence that is no string, an \<^verbatim>\<open>int\<close> or \<^verbatim>\<open>float\<close>, or a string; the values are the
  items of the sequence, the number itself, or the whitespace-separated tokens of the
  string. With one value the result is the 1-tuple of \<^verbatim>\<open>is_length\<close> of it, with two the
  2-tuple (horizontal, vertical) of \<^verbatim>\<open>is_length\<close> of each, an exception of \<^verbatim>\<open>is_length\<close>
  being raised as it is; with any other number of values a \<^verbatim>\<open>ValidationError\<close> is raised
  whose message is \<^verbatim>\<open>Should provide 1 or 2 <length> values!\<close>.
\<close>

theorem is_border_spacing_tokens:
  "((\<exists>vals. border_spacing_values v = Inr vals) \<longleftrightarrow>
      (is_Sequence v \<and> \<not> is_str v) \<or> is_int_or_float v \<or> is_str v) \<and>
   (is_Sequence v \<and> \<not> is_str v \<longrightarrow> border_spacing_values v = Inr (items v)) \<and>
   (is_int_or_float v \<longrightarrow> border_spacing_values v = Inr [v]) \<and>
   border_spacing_values (PyStr s) = Inr (map PyStr (py_split s)) \<and>
   (border_spacing_values v = Inr [a] \<longrightarrow>
      is_border_spacing units v =
        (case is_length units a of Inl e \<Rightarrow> Inl e | Inr h \<Rightarrow> Inr (PyTuple [h]))) \<and>
   (border_spacing_values v = Inr [a, b] \<longrightarrow>
      is_border_spacing units v =
        (case is_length units a of
           Inl e \<Rightarrow> Inl e
         | Inr h \<Rightarrow>
             (case is_length units b of Inl e \<Rightarrow> Inl e | Inr w \<Rightarrow> Inr (PyTuple [h, w])))) \<and>
   (border_spacing_values v = Inr vals \<and> length vals \<noteq> 1 \<and> length vals \<noteq> 2 \<longrightarrow>
      is_border_spacing units v =
        Inl (Exn ValidationError [Lit ''Should provide 1 or 2 <length> values!''])) \<and>
   render [Lit ''Should provide 1 or 2 <length> values!''] =
     Some ''Should provide 1 or 2 <length> values!''"
proof (intro conjI impI)
  show "(\<exists>vals. border_spacing_values v = Inr vals) \<longleftrightarrow>
      (is_Sequence v \<and> \<not> is_str v) \<or> is_int_or_float v \<or> is_str v"
    by (rule border_spacing_values_accepts)
  show "border_spacing_values v = Inr (items v)" if "is_Sequence v \<and> \<not> is_str v"
    using that by (simp add: border_spacing_values_def)
  show "border_spacing_values v = Inr [v]" if "is_int_or_float v"
    using that by (cases v) (simp_all add: border_spacing_values_shapes)
  show "border_spacing_values (PyStr s) = Inr (map PyStr (py_split s))"
    by (rule border_spacing_values_shapes)
  show "is_border_spacing units v =
      (case is_length units a of Inl e \<Rightarrow> Inl e | Inr h \<Rightarrow> Inr (PyTuple [h]))"
    if "border_spacing_values v = Inr [a]"
    using that by (rule is_border_spacing_one)
  show "is_border_spacing units v =
      (case is_length units a of
         Inl e \<Rightarrow> Inl e
       | Inr h \<Rightarrow>
           (case is_length units b of Inl e \<Rightarrow> Inl e | Inr w \<Rightarrow> Inr (PyTuple [h, w])))"
    if "border_spacing_values v = Inr [a, b]"
    using that by (rule is_border_spacing_two)
  show "is_border_spacing units v =
      Inl (Exn ValidationError [Lit ''Should provide 1 or 2 <length> values!''])"
    if "border_spacing_values v = Inr vals \<and> length vals \<noteq> 1 \<and> length vals \<noteq> 2"
    using that is_border_spacing_other [of v vals units] by blast
  show "render [Lit ''Should provide 1 or 2 <length> values!''] =
      Some ''Should provide 1 or 2 <length> values!''"
    by simp
qed

theorem is_border_spacing_tokens_witness:
  "is_border_spacing sample_units (PyStr ''10px  50%'') =
     Inr (PyTuple [PyUnit (LengthValue 10 ''px''), PyUnit (PercentValue 50)]) \<and>
   is_border_spacing sample_units (PyInt 10) = Inr (PyTuple [PyUnit (LengthValue 10 ''px'')]) \<and>
   is_border_spacing sample_units (PyList [PyInt 1, PyStr ''wide'']) =
     Inl (Exn ValidationError [Lit ''Unknown size '', Fmt (PyStr ''wide'')]) \<and>
   is_border_spacing sample_units (PyTuple []) =
     Inl (Exn ValidationError [Lit ''Should provide 1 or 2 <length> values!''])"
proof -
  have two: "border_spacing_values (PyStr ''10px  50%'') = Inr [PyStr ''10px'', PyStr ''50%'']"
    by (simp add: border_spacing_values_def py_split_def py_strip_def is_space_def)
  have one: "border_spacing_values (PyInt 10) = Inr [PyInt 10]"
    by (simp add: border_spacing_values_def)
  have bad: "border_spacing_values (PyList [PyInt 1, PyStr ''wide'']) = Inr [PyInt 1, PyStr ''wide'']"
    by (simp add: border_spacing_values_def)
  have none: "border_spacing_values (PyTuple []) = Inr [] \<and> length ([] :: pyval list) \<noteq> 1
      \<and> length ([] :: pyval list) \<noteq> 2"
    by (simp add: border_spacing_values_def)
  have len: "is_length sample_units (PyStr ''10px'') = Inr (PyUnit (LengthValue 10 ''px''))"
    "is_length sample_units (PyStr ''50%'') = Inr (PyUnit (PercentValue 50))"
    "is_length sample_units (PyInt 10) = Inr (PyUnit (LengthValue 10 ''px''))"
    "is_length sample_units (PyInt 1) = Inr (PyUnit (LengthValue 1 ''px''))"
    "is_length sample_units (PyStr ''wide'') =
       Inl (Exn ValidationError [Lit ''Unknown size '', Fmt (PyStr ''wide'')])"
    by (simp_all add: is_length_def except_ValueError_def isinstance_exn_def)
  from is_border_spacing_tokens
    [where v = "PyStr ''10px  50%''" and a = "PyStr ''10px''" and b = "PyStr ''50%''"
      and units = sample_units] two
  have 1: "is_border_spacing sample_units (PyStr ''10px  50%'') =
      Inr (PyTuple [PyUnit (LengthValue 10 ''px''), PyUnit (PercentValue 50)])"
    by (simp add: len)
  from is_border_spacing_tokens [where v = "PyInt 10" and a = "PyInt 10" and units = sample_units]
    one
  have 2: "is_border_spacing sample_units (PyInt 10) = Inr (PyTuple [PyUnit (LengthValue 10 ''px'')])"
    by (simp add: len)
  from is_border_spacing_tokens
    [where v = "PyList [PyInt 1, PyStr ''wide'']" and a = "PyInt 1" and b = "PyStr ''wide''"
      and units = sample_units] bad
  have 3: "is_border_spacing sample_units (PyList [PyInt 1, PyStr ''wide'']) =
      Inl (Exn ValidationError [Lit ''Unknown size '', Fmt (PyStr ''wide'')])"
    by (simp add: len)
  from is_border_spacing_tokens [where v = "PyTuple []" and vals = "[]" and units = sample_units]
    none
  have 4: "is_border_spacing sample_units (PyTuple []) =
      Inl (Exn ValidationError [Lit ''Should provide 1 or 2 <length> values!''])"
    by blast
  from 1 2 3 4 show ?thesis by blast
qed

text \<open>
  C9. When the input is a sequence that is no string, an \<^verbatim>\<open>int\<close> or \<^verbatim>\<open>float\<close>, or a
  string, every exception of \<^verbatim>\<open>is_border_spacing\<close> is a \<^verbatim>\<open>ValidationError\<close>, unless it is an
  exception of the unit parser itself that is no \<^verbatim>\<open>ValueError\<close>. For every other input
  (\<^verbatim>\<open>None\<close> and a dict among them) \<^verbatim>\<open>value.split()\<close> raises \<^verbatim>\<open>AttributeError\<close>, which is
  no \<^verbatim>\<open>ValidationError\<close>.
\<close>

theorem is_border_spacing_precondition:
  "((is_Sequence v \<and> \<not> is_str v) \<or> is_int_or_float v \<or> is_str v \<longrightarrow>
      (\<forall>e. is_border_spacing units v = Inl e \<longrightarrow>
         exc_class_of e = ValidationError \<or>
         (\<exists>a. units a = Inl e \<and> \<not> isinstance_exn e ValueError))) \<and>
   (\<not> ((is_Sequence v \<and> \<not> is_str v) \<or> is_int_or_float v \<or> is_str v) \<longrightarrow>
      is_border_spacing units v = Inl (Exn AttributeError [])) \<and>
   is_border_spacing units PyNone = Inl (Exn AttributeError []) \<and>
   is_border_spacing units (PyDict d) = Inl (Exn AttributeError []) \<and>
   \<not> isinstance_exn (Exn AttributeError []) ValidationError"
proof (intro conjI impI allI)
  fix e
  assume shape: "(is_Sequence v \<and> \<not> is_str v) \<or> is_int_or_float v \<or> is_str v"
    and err: "is_border_spacing units v = Inl e"
  from shape border_spacing_values_errors [of v e] have "border_spacing_values v \<noteq> Inl e"
    by blast
  with is_border_spacing_errors [OF err]
  show "exc_class_of e = ValidationError \<or> (\<exists>a. units a = Inl e \<and> \<not> isinstance_exn e ValueError)"
    by blast
next
  assume other: "\<not> ((is_Sequence v \<and> \<not> is_str v) \<or> is_int_or_float v \<or> is_str v)"
  with border_spacing_values_accepts [of v] obtain x where x: "border_spacing_values v = Inl x"
    by (cases "border_spacing_values v") auto
  with border_spacing_values_errors [of v x] have "border_spacing_values v = Inl (Exn AttributeError [])"
    by simp
  then show "is_border_spacing units v = Inl (Exn AttributeError [])"
    by (rule is_border_spacing_no_values)
next
  show "is_border_spacing units PyNone = Inl (Exn AttributeError [])"
    by (simp add: is_border_spacing_no_values border_spacing_values_shapes)
  show "is_border_spacing units (PyDict d) = Inl (Exn AttributeError [])"
    by (simp add: is_border_spacing_no_values border_spacing_values_shapes)
  show "\<not> isinstance_exn (Exn AttributeError []) ValidationError"
    by (simp add: isinstance_exn_def)
qed

theorem is_border_spacing_precondition_witness:
  "is_border_spacing sample_units (PyStr ''wide'') =
     Inl (Exn ValidationError [Lit ''Unknown size '', Fmt (PyStr ''wide'')]) \<and>
   exc_class_of (Exn ValidationError [Lit ''Unknown size '', Fmt (PyStr ''wide'')]) = ValidationError \<and>
   is_border_spacing sample_units (PyUnit (PercentValue 50)) = Inl (Exn AttributeError [])"
proof -
  have err: "is_border_spacing sample_units (PyStr ''wide'') =
      Inl (Exn ValidationError [Lit ''Unknown size '', Fmt (PyStr ''wide'')])"
    by (simp add: is_border_spacing_def border_spacing_values_def py_split_def py_strip_def
        is_space_def is_length_def except_ValueError_def isinstance_exn_def)
  have shape: "(is_Sequence (PyStr ''wide'') \<and> \<not> is_str (PyStr ''wide'')) \<or>
      is_int_or_float (PyStr ''wide'') \<or> is_str (PyStr ''wide'')"
    by simp
  have sample: "\<not> (\<exists>a. sample_units a =
      Inl (Exn ValidationError [Lit ''Unknown size '', Fmt (PyStr ''wide'')]))"
  proof
    assume "\<exists>a. sample_units a =
      Inl (Exn ValidationError [Lit ''Unknown size '', Fmt (PyStr ''wide'')])"
    then obtain a where "sample_units a =
      Inl (Exn ValidationError [Lit ''Unknown size '', Fmt (PyStr ''wide'')])" ..
    then show False
      by (cases a rule: sample_units.cases) (simp_all split: if_splits)
  qed
  from is_border_spacing_precondition [of "PyStr ''wide''" sample_units] shape err sample
  have 1: "exc_class_of (Exn ValidationError [Lit ''Unknown size '', Fmt (PyStr ''wide'')]) =
      ValidationError"
    by blast
  have other: "\<not> ((is_Sequence (PyUnit (PercentValue 50)) \<and> \<not> is_str (PyUnit (PercentValue 50))) \<or>
      is_int_or_float (PyUnit (PercentValue 50)) \<or> is_str (PyUnit (PercentValue 50)))"
    by simp
  from is_border_spacing_precondition [of "PyUnit (PercentValue 50)" sample_units] other
  have 2: "is_border_spacing sample_units (PyUnit (PercentValue 50)) = Inl (Exn AttributeError [])"
    by blast
  from err 1 2 show ?thesis by blast
qed

subsection \<open>Every exception the validators raise themselves is a \<^verbatim>\<open>ValidationError\<close>\<close>

lemma numeric_validator_errors:
  "numeric_validator v numeric_type min_value max_value = Inl e \<Longrightarrow>
   exc_class_of e = ValidationError \<or>
   (coerce numeric_type v = Inl e \<and> \<not> isinstance_exn e ValueError \<and> \<not> isinstance_exn e TypeError) \<or>
   (e = Exn TypeError [] \<and>
     ((min_value \<noteq> PyNone \<and> as_num min_value = None) \<or>
      (max_value \<noteq> PyNone \<and> as_num max_value = None)))"
  by (auto simp add: numeric_validator_def py_lt_def py_gt_def
      split: sum.splits if_splits option.splits)

lemma returning_errors: "returning r = Inl e \<Longrightarrow> r = Inl e"
  by (cases r) simp_all

text \<open>
  C7. \<^verbatim>\<open>ValidationError\<close> is a subclass of \<^verbatim>\<open>ValueError\<close>. Every exception that leaves
  \<^verbatim>\<open>is_length\<close>, \<^verbatim>\<open>is_percentage\<close>, \<^verbatim>\<open>is_color\<close>, \<^verbatim>\<open>is_border_spacing\<close>, \<^verbatim>\<open>is_number\<close>,
  \<^verbatim>\<open>is_integer\<close> or a validator these two return is a \<^verbatim>\<open>ValidationError\<close>, or else it is not
  raised by the validator but by what it calls and passed on as it is: an exception of the
  parser that is no \<^verbatim>\<open>ValueError\<close>, an exception of \<^verbatim>\<open>int\<close> or \<^verbatim>\<open>float\<close> that is neither
  \<^verbatim>\<open>ValueError\<close> nor \<^verbatim>\<open>TypeError\<close>, the \<^verbatim>\<open>TypeError\<close> of a comparison with a bound that is
  no number, or the \<^verbatim>\<open>AttributeError\<close> of \<^verbatim>\<open>value.split()\<close>. So each \<^verbatim>\<open>raise\<close> of the module
  raises a \<^verbatim>\<open>ValidationError\<close>, with a message.
\<close>

theorem validators_raise_ValidationError:
  "is_subclass ValidationError ValueError \<and>
   (is_length units v = Inl e \<longrightarrow>
      exc_class_of e = ValidationError \<or> (units v = Inl e \<and> \<not> isinstance_exn e ValueError)) \<and>
   (is_percentage units v = Inl e \<longrightarrow>
      exc_class_of e = ValidationError \<or> (units v = Inl e \<and> \<not> isinstance_exn e ValueError)) \<and>
   (is_color color v = Inl e \<longrightarrow>
      exc_class_of e = ValidationError \<or> (color v = Inl e \<and> \<not> isinstance_exn e ValueError)) \<and>
   (is_border_spacing units v = Inl e \<longrightarrow>
      exc_class_of e = ValidationError \<or>
      (\<exists>a. units a = Inl e \<and> \<not> isinstance_exn e ValueError) \<or>
      (border_spacing_values v = Inl e \<and> e = Exn AttributeError [])) \<and>
   (is_integer v min_value max_value = Inl e \<longrightarrow>
      exc_class_of e = ValidationError \<or>
      (py_int v = Inl e \<and> \<not> isinstance_exn e ValueError \<and> \<not> isinstance_exn e TypeError)) \<and>
   (is_number float_of_str v min_value max_value = Inl e \<longrightarrow>
      exc_class_of e = ValidationError \<or>
      (py_float float_of_str v = Inl e \<and> \<not> isinstance_exn e ValueError \<and>
       \<not> isinstance_exn e TypeError)) \<and>
   (is_integer v min_value max_value = Inr (Validator f) \<and> f x = Inl e \<longrightarrow>
      exc_class_of e = ValidationError \<or>
      (py_int x = Inl e \<and> \<not> isinstance_exn e ValueError \<and> \<not> isinstance_exn e TypeError) \<or>
      (e = Exn TypeError [] \<and>
        ((min_value \<noteq> PyNone \<and> as_num min_value = None) \<or>
         (max_value \<noteq> PyNone \<and> as_num max_value = None)))) \<and>
   (is_number float_of_str v min_value max_value = Inr (Validator f) \<and> f x = Inl e \<longrightarrow>
      exc_class_of e = ValidationError \<or>
      (py_float float_of_str x = Inl e \<and> \<not> isinstance_exn e ValueError \<and>
       \<not> isinstance_exn e TypeError) \<or>
      (e = Exn TypeError [] \<and>
        ((min_value \<noteq> PyNone \<and> as_num min_value = None) \<or>
         (max_value \<noteq> PyNone \<and> as_num max_value = None))))"
proof (intro conjI impI)
  show "is_subclass ValidationError ValueError"
    by simp
  show "exc_class_of e = ValidationError \<or> (units v = Inl e \<and> \<not> isinstance_exn e ValueError)"
    if "is_length units v = Inl e"
    using that by (rule is_length_errors)
  show "exc_class_of e = ValidationError \<or> (units v = Inl e \<and> \<not> isinstance_exn e ValueError)"
    if "is_percentage units v = Inl e"
    using that by (rule is_percentage_errors)
  show "exc_class_of e = ValidationError \<or> (color v = Inl e \<and> \<not> isinstance_exn e ValueError)"
    if "is_color color v = Inl e"
    using that by (rule is_color_errors)
  show "exc_class_of e = ValidationError \<or>
      (\<exists>a. units a = Inl e \<and> \<not> isinstance_exn e ValueError) \<or>
      (border_spacing_values v = Inl e \<and> e = Exn AttributeError [])"
    if "is_border_spacing units v = Inl e"
    using that by (rule is_border_spacing_errors)
  show "exc_class_of e = ValidationError \<or>
      (py_int v = Inl e \<and> \<not> isinstance_exn e ValueError \<and> \<not> isinstance_exn e TypeError)"
    if "is_integer v min_value max_value = Inl e"
  proof -
    from that have "numeric_validator v int_type PyNone PyNone = Inl e"
      by (auto simp add: is_integer_def dest: returning_errors split: if_splits)
    from numeric_validator_errors [OF this] show ?thesis
      by (simp add: int_type_def)
  qed
  show "exc_class_of e = ValidationError \<or>
      (py_float float_of_str v = Inl e \<and> \<not> isinstance_exn e ValueError \<and>
       \<not> isinstance_exn e TypeError)"
    if "is_number float_of_str v min_value max_value = Inl e"
  proof -
    from that have "numeric_validator v (float_type float_of_str) PyNone PyNone = Inl e"
      by (auto simp add: is_number_def dest: returning_errors split: if_splits)
    from numeric_validator_errors [OF this] show ?thesis
      by (simp add: float_type_def)
  qed
  show "exc_class_of e = ValidationError \<or>
      (py_int x = Inl e \<and> \<not> isinstance_exn e ValueError \<and> \<not> isinstance_exn e TypeError) \<or>
      (e = Exn TypeError [] \<and>
        ((min_value \<noteq> PyNone \<and> as_num min_value = None) \<or>
         (max_value \<noteq> PyNone \<and> as_num max_value = None)))"
    if "is_integer v min_value max_value = Inr (Validator f) \<and> f x = Inl e"
  proof -
    from that have "numeric_validator x int_type min_value max_value = Inl e"
      by (auto simp add: is_integer_def returning_no_Validator split: if_splits)
    from numeric_validator_errors [OF this] show ?thesis
      by (simp add: int_type_def)
  qed
  show "exc_class_of e = ValidationError \<or>
      (py_float float_of_str x = Inl e \<and> \<not> isinstance_exn e ValueError \<and>
       \<not> isinstance_exn e TypeError) \<or>
      (e = Exn TypeError [] \<and>
        ((min_value \<noteq> PyNone \<and> as_num min_value = None) \<or>
         (max_value \<noteq> PyNone \<and> as_num max_value = None)))"
    if "is_number float_of_str v min_value max_value = Inr (Validator f) \<and> f x = Inl e"
  proof -
    from that have "numeric_validator x (float_type float_of_str) min_value max_value = Inl e"
      by (auto simp add: is_number_def returning_no_Validator split: if_splits)
    from numeric_validator_errors [OF this] show ?thesis
      by (simp add: float_type_def)
  qed
qed

theorem validators_raise_ValidationError_witness:
  "is_percentage sample_units (PyInt 10) =
     Inl (Exn ValidationError
       [Lit ''Value '', Fmt (PyUnit (LengthValue 10 ''px'')), Lit '' is not a Percent unit'']) \<and>
   is_length sample_units PyNone = Inl (Exn AttributeError []) \<and>
   sample_units PyNone = Inl (Exn AttributeError []) \<and>
   is_integer (PyFloat NegInf) PyNone PyNone = Inl (Exn OverflowError []) \<and>
   py_int (PyFloat NegInf) = Inl (Exn OverflowError []) \<and>
   is_integer PyNone PyNone PyNone =
     Inl (Exn ValidationError [Lit ''Cannot coerce '', Fmt PyNone, Lit '' to '', Lit ''int''])"
proof -
  have p: "is_percentage sample_units (PyInt 10) =
      Inl (Exn ValidationError
        [Lit ''Value '', Fmt (PyUnit (LengthValue 10 ''px'')), Lit '' is not a Percent unit''])"
    by (simp add: is_percentage_def except_ValueError_def)
  have l: "is_length sample_units PyNone = Inl (Exn AttributeError [])
      \<and> exc_class_of (Exn AttributeError []) \<noteq> ValidationError"
    by (simp add: is_length_def except_ValueError_def isinstance_exn_def)
  have i: "is_integer (PyFloat NegInf) PyNone PyNone = Inl (Exn OverflowError [])
      \<and> exc_class_of (Exn OverflowError []) \<noteq> ValidationError"
    by (simp add: is_integer_def numeric_validator_def int_type_def isinstance_exn_def)
  have n: "is_integer PyNone PyNone PyNone =
      Inl (Exn ValidationError [Lit ''Cannot coerce '', Fmt PyNone, Lit '' to '', Lit ''int''])"
    by (simp add: is_integer_def numeric_validator_def int_type_def isinstance_exn_def)
  from validators_raise_ValidationError
    [where units = sample_units and v = PyNone and e = "Exn AttributeError []"] l
  have 1: "sample_units PyNone = Inl (Exn AttributeError [])"
    by blast
  from validators_raise_ValidationError
    [where v = "PyFloat NegInf" and min_value = PyNone and max_value = PyNone
      and e = "Exn OverflowError []"] i
  have 2: "py_int (PyFloat NegInf) = Inl (Exn OverflowError [])"
    by blast
  from p l 1 i 2 n show ?thesis by blast
qed

subsection \<open>The message of \<^verbatim>\<open>test_all_choices\<close>\<close>

lemma sorted_forms:
  "sort [''a'', ''b'', ''none'', ''<integer>'', ''<number>'', ''<length>'', ''<percentage>'',
         ''<color>'', ''initial'', ''inherit'', ''unset'', ''revert''] =
   [''<color>'', ''<integer>'', ''<length>'', ''<number>'', ''<percentage>'', ''a'', ''b'',
    ''inherit'', ''initial'', ''none'', ''revert'', ''unset'']"
  by code_simp

lemma legal_forms_all_choices:
  "legal_forms (all_choices float_of_str units color) =
   [''<color>'', ''<integer>'', ''<length>'', ''<number>'', ''<percentage>'', ''a'', ''b'',
    ''inherit'', ''initial'', ''none'', ''revert'', ''unset'']"
proof -
  have "map constant_token (constants (all_choices float_of_str units color)) @
      map description (validators (all_choices float_of_str units color)) @
      map constant_token (explicit_defaulting_constants (all_choices float_of_str units color)) =
    [''a'', ''b'', ''none'', ''<integer>'', ''<number>'', ''<length>'', ''<percentage>'',
     ''<color>'', ''initial'', ''inherit'', ''unset'', ''revert'']"
    by (simp add: all_choices_def is_integer_fn_def is_number_fn_def is_length_fn_def
        is_percentage_fn_def is_color_fn_def)
  then show ?thesis
    unfolding legal_forms_def by (simp only: sorted_forms)
qed

lemma choices_str_all_choices:
  "choices_str (all_choices float_of_str units color) =
   ''<color>, <integer>, <length>, <number>, <percentage>, a, b, inherit, initial, none, revert, unset''"
  unfolding choices_str_def legal_forms_all_choices by simp

lemma invalid_matches_no_constant:
  "find (matches_constant (PyStr ''invalid''))
     (constants (all_choices float_of_str units color) @
      explicit_defaulting_constants (all_choices float_of_str units color)) = None"
  by (simp add: all_choices_def py_lower_def py_lower_char_def)

lemma int_of_invalid: "py_int (PyStr ''invalid'') = Inl (Exn ValueError [])"
  by (simp add: int_strip_def is_int_space_def digit_val_def)

lemma invalid_accepted_by_none:
  assumes "float_of_str ''invalid'' = None"
    and "units (PyStr ''invalid'') = Inl eu" and "isinstance_exn eu ValueError"
    and "color (PyStr ''invalid'') = Inl ec" and "isinstance_exn ec ValueError"
  shows "first_accepting (validators (all_choices float_of_str units color)) (PyStr ''invalid'') = None"
proof -
  have i: "call is_integer_fn (PyStr ''invalid'') =
      Inl (Exn ValidationError
        [Lit ''Cannot coerce '', Fmt (PyStr ''invalid''), Lit '' to '', Lit ''int''])"
    using int_of_invalid
    by (simp add: is_integer_fn_def is_integer_def numeric_validator_def int_type_def
        isinstance_exn_def del: py_int.simps)
  have n: "call (is_number_fn float_of_str) (PyStr ''invalid'') =
      Inl (Exn ValidationError
        [Lit ''Cannot coerce '', Fmt (PyStr ''invalid''), Lit '' to '', Lit ''float''])"
    using assms(1)
    by (simp add: is_number_fn_def is_number_def numeric_validator_def float_type_def
        isinstance_exn_def)
  have l: "call (is_length_fn units) (PyStr ''invalid'') = Inl (Exn ValidationError (str_of_exn eu))"
    using assms(2,3) by (simp add: is_length_fn_def is_length_def except_ValueError_def)
  have p: "call (is_percentage_fn units) (PyStr ''invalid'') =
      Inl (Exn ValidationError (str_of_exn eu))"
    using assms(2,3) by (simp add: is_percentage_fn_def is_percentage_def except_ValueError_def)
  have c: "call (is_color_fn color) (PyStr ''invalid'') = Inl (Exn ValidationError (str_of_exn ec))"
    using assms(4,5) by (simp add: is_color_fn_def is_color_def except_ValueError_def)
  show ?thesis
    by (simp add: all_choices_def i n l p c isinstance_ValidationError)
qed

text \<open>
  C6. With the \<^verbatim>\<open>Choices\<close> of \<^verbatim>\<open>test_all_choices\<close> (validators \<^verbatim>\<open>is_integer\<close>, \<^verbatim>\<open>is_number\<close>,
  \<^verbatim>\<open>is_length\<close>, \<^verbatim>\<open>is_percentage\<close>, \<^verbatim>\<open>is_color\<close>; constants \<^verbatim>\<open>'a'\<close>, \<^verbatim>\<open>'b'\<close>, \<^verbatim>\<open>None\<close>; the
  explicit defaulting constants \<^verbatim>\<open>initial\<close>, \<^verbatim>\<open>inherit\<close>, \<^verbatim>\<open>unset\<close>, \<^verbatim>\<open>revert\<close>), and with
  parsers that reject \<^verbatim>\<open>'invalid'\<close> by a \<^verbatim>\<open>ValueError\<close>, validating \<^verbatim>\<open>'invalid'\<close> for the
  property \<^verbatim>\<open>prop\<close> fails with a \<^verbatim>\<open>ValidationError\<close> whose message reads exactly
  \<^verbatim>\<open>Invalid value 'invalid' for CSS property 'prop'; Valid values are: <color>, <integer>, <length>, <number>, <percentage>, a, b, inherit, initial, none, revert, unset\<close>:
  the legal forms in sorted order, each validator giving its \<^verbatim>\<open>description\<close>.
\<close>

theorem all_choices_message:
  assumes "float_of_str ''invalid'' = None"
    and "units (PyStr ''invalid'') = Inl eu" and "isinstance_exn eu ValueError"
    and "color (PyStr ''invalid'') = Inl ec" and "isinstance_exn ec ValueError"
  shows "\<exists>m. property_validate ''prop'' (all_choices float_of_str units color) (PyStr ''invalid'') =
        Inl (Exn ValidationError m) \<and>
      render m = Some ''Invalid value 'invalid' for CSS property 'prop'; Valid values are: <color>, <integer>, <length>, <number>, <percentage>, a, b, inherit, initial, none, revert, unset''"
proof -
  have "choices_validate (all_choices float_of_str units color) (PyStr ''invalid'') =
      Inl (Exn ValidationError [Lit (choices_str (all_choices float_of_str units color))])"
    unfolding choices_validate_def
    by (simp only: invalid_matches_no_constant invalid_accepted_by_none [of float_of_str units eu color ec, OF assms] option.case)
  then have "property_validate ''prop'' (all_choices float_of_str units color) (PyStr ''invalid'') =
      Inl (Exn ValidationError
        [Lit (''Invalid value '' @ [CHR 0x27]), Fmt (PyStr ''invalid''),
         Lit ([CHR 0x27] @ '' for CSS property '' @ [CHR 0x27]), Lit ''prop'',
         Lit ([CHR 0x27] @ ''; Valid values are: ''),
         Lit (choices_str (all_choices float_of_str units color))])"
    by (simp add: property_validate_def isinstance_ValidationError)
  moreover have "render
       [Lit (''Invalid value '' @ [CHR 0x27]), Fmt (PyStr ''invalid''),
        Lit ([CHR 0x27] @ '' for CSS property '' @ [CHR 0x27]), Lit ''prop'',
        Lit ([CHR 0x27] @ ''; Valid values are: ''),
        Lit (choices_str (all_choices float_of_str units color))] =
      Some ''Invalid value 'invalid' for CSS property 'prop'; Valid values are: <color>, <integer>, <length>, <number>, <percentage>, a, b, inherit, initial, none, revert, unset''"
    by (simp add: choices_str_all_choices)
  ultimately show ?thesis
    by blast
qed

theorem all_choices_message_witness:
  "\<exists>m. property_validate ''prop''
          (all_choices sample_float_of_str sample_units sample_color) (PyStr ''invalid'') =
        Inl (Exn ValidationError m) \<and>
      render m = Some ''Invalid value 'invalid' for CSS property 'prop'; Valid values are: <color>, <integer>, <length>, <number>, <percentage>, a, b, inherit, initial, none, revert, unset''"
proof -
  have f: "sample_float_of_str ''invalid'' = None"
    by (simp add: sample_float_of_str_def)
  have u: "sample_units (PyStr ''invalid'') =
      Inl (Exn ValueError [Lit ''Unknown size '', Fmt (PyStr ''invalid'')])"
    by simp
  have c: "sample_color (PyStr ''invalid'') =
      Inl (Exn ValueError [Lit ''Unknown color '', Fmt (PyStr ''invalid'')])"
    by (simp add: sample_color_def)
  have iu: "isinstance_exn (Exn ValueError [Lit ''Unknown size '', Fmt (PyStr ''invalid'')]) ValueError"
    by (simp add: isinstance_exn_def)
  have ic: "isinstance_exn (Exn ValueError [Lit ''Unknown color '', Fmt (PyStr ''invalid'')]) ValueError"
    by (simp add: isinstance_exn_def)
  show ?thesis
    by (rule all_choices_message
      [of sample_float_of_str sample_units
        "Exn ValueError [Lit ''Unknown size '', Fmt (PyStr ''invalid'')]" sample_color
        "Exn ValueError [Lit ''Unknown color '', Fmt (PyStr ''invalid'')]", OF f u iu c ic])
qed

end
